theory Spec2Isabelle
  imports Complex_Main
begin

section \<open>Python strings\<close>

text \<open>
  A Python \<^verbatim>\<open>str\<close> is modelled as a \<^typ>\<open>string\<close>: a list of characters, each
  standing for one code point below 256.  Slicing, \<^verbatim>\<open>in\<close>, \<^verbatim>\<open>lower\<close>, \<^verbatim>\<open>strip\<close> and
  \<^verbatim>\<open>join\<close> are the operations \<^verbatim>\<open>obit_scraper.py\<close> applies to strings.
\<close>

text \<open>\<^verbatim>\<open>str.lower\<close> on one code point: ASCII and Latin-1 capitals move up by 32.\<close>

definition lower_char :: "char \<Rightarrow> char" where
  "lower_char c =
     (let n = (of_char c :: nat) in
      if (65 \<le> n \<and> n \<le> 90) \<or> (192 \<le> n \<and> n \<le> 222 \<and> n \<noteq> 215)
      then char_of (n + 32) else c)"

definition lower :: "string \<Rightarrow> string" where
  "lower s = map lower_char s"

text \<open>The code points below 256 that \<^verbatim>\<open>str.strip()\<close> removes.\<close>

definition is_space :: "char \<Rightarrow> bool" where
  "is_space c =
     (let n = (of_char c :: nat) in
      (9 \<le> n \<and> n \<le> 13) \<or> (28 \<le> n \<and> n \<le> 32) \<or> n = 133 \<or> n = 160)"

definition strip :: "string \<Rightarrow> string" where
  "strip s = rev (dropWhile is_space (rev (dropWhile is_space s)))"

fun startswith :: "string \<Rightarrow> string \<Rightarrow> bool" where
  "startswith s [] = True"
| "startswith [] (c # cs) = False"
| "startswith (x # xs) (c # cs) = (x = c \<and> startswith xs cs)"

text \<open>\<^verbatim>\<open>sub in s\<close>.\<close>

fun str_contains :: "string \<Rightarrow> string \<Rightarrow> bool" where
  "str_contains [] sub = (sub = [])"
| "str_contains (x # xs) sub = (startswith (x # xs) sub \<or> str_contains xs sub)"

text \<open>\<^verbatim>\<open>sep.join(xs)\<close>.\<close>

fun join :: "string \<Rightarrow> string list \<Rightarrow> string" where
  "join sep [] = []"
| "join sep [x] = x"
| "join sep (x # y # ys) = x @ sep @ join sep (y # ys)"

definition newline :: string where
  "newline = [CHR 0x0A]"


section \<open>Exceptions and observable effects\<close>

datatype py_error = AttributeError | KeyError | ValueError | ParseError | OSError

text \<open>
  One constructor per \<^verbatim>\<open>print\<close> call of the source, carrying the values the
  message interpolates (the exception text of the two error messages is left out).
\<close>

datatype log_line =
    ErrorFetching string
  | DebugFetched string nat
  | DebugFirst500 string
  | ErrorCaptcha
  | DebugFound nat
  | DebugHandling string
  | InfoParsing string
  | ErrorNotExist string
  | ErrorParse
  | ErrorNoChannel string
  | InfoFound nat string
  | WarnNoLink nat nat
  | InfoProcessing nat nat string string
  | InfoStopping nat string
  | InfoWaiting real
  | InfoDone string


section \<open>The parsed page (BeautifulSoup)\<close>

text \<open>
  The tree \<^verbatim>\<open>BeautifulSoup(resp.text, 'html.parser')\<close> builds: a tag with its
  attribute dictionary and contents, a text node, or a string the text extraction
  skips (a comment, a declaration).
\<close>

datatype node =
    Tag string "(string \<times> string) list" "node list"
  | NavigableString string
  | Comment string

text \<open>\<^verbatim>\<open>tag.descendants\<close>: every node below a tag, in document order.\<close>

fun descendants :: "node \<Rightarrow> node list" where
  "descendants (Tag n as cs) = concat (map (\<lambda>c. c # descendants c) cs)"
| "descendants (NavigableString s) = []"
| "descendants (Comment s) = []"

text \<open>
  The two attribute filters the source passes: \<^verbatim>\<open>attrs={k: True}\<close> (the attribute is
  present) and \<^verbatim>\<open>attrs={k: v}\<close> (the attribute has exactly this value).
\<close>

datatype attr_filter = HasAttr string | AttrEq string string

fun attr_ok :: "(string \<times> string) list \<Rightarrow> attr_filter \<Rightarrow> bool" where
  "attr_ok as (HasAttr k) = (map_of as k \<noteq> None)"
| "attr_ok as (AttrEq k v) = (map_of as k = Some v)"

fun matches :: "string \<Rightarrow> attr_filter list \<Rightarrow> node \<Rightarrow> bool" where
  "matches nm fs (Tag n as cs) = (n = nm \<and> list_all (attr_ok as) fs)"
| "matches nm fs (NavigableString s) = False"
| "matches nm fs (Comment s) = False"

definition find_all :: "string \<Rightarrow> attr_filter list \<Rightarrow> node \<Rightarrow> node list" where
  "find_all nm fs nd = filter (matches nm fs) (descendants nd)"

definition find_tag :: "string \<Rightarrow> attr_filter list \<Rightarrow> node \<Rightarrow> node option" where
  "find_tag nm fs nd = (case find_all nm fs nd of [] \<Rightarrow> None | x # xs \<Rightarrow> Some x)"

text \<open>\<^verbatim>\<open>tag.get(key)\<close>, \<^verbatim>\<open>tag.get(key, default)\<close> and \<^verbatim>\<open>tag[key]\<close>.\<close>

fun tag_get :: "node \<Rightarrow> string \<Rightarrow> string option" where
  "tag_get (Tag n as cs) k = map_of as k"
| "tag_get (NavigableString s) k = None"
| "tag_get (Comment s) k = None"

definition tag_get_default :: "node \<Rightarrow> string \<Rightarrow> string \<Rightarrow> string" where
  "tag_get_default nd k d = (case tag_get nd k of None \<Rightarrow> d | Some v \<Rightarrow> v)"

definition tag_getitem :: "node \<Rightarrow> string \<Rightarrow> py_error + string" where
  "tag_getitem nd k = (case tag_get nd k of None \<Rightarrow> Inl KeyError | Some v \<Rightarrow> Inr v)"

text \<open>
  \<^verbatim>\<open>tag.get_text(strip=True)\<close>: the text nodes below the tag, each stripped, the empty
  ones dropped, concatenated.
\<close>

fun nav_string :: "node \<Rightarrow> string option" where
  "nav_string (NavigableString s) = Some s"
| "nav_string (Tag n as cs) = None"
| "nav_string (Comment s) = None"

definition get_text_strip :: "node \<Rightarrow> string" where
  "get_text_strip nd =
     concat (filter (\<lambda>s. s \<noteq> []) (map strip (List.map_filter nav_string (descendants nd))))"


section \<open>The feed document (ElementTree)\<close>

text \<open>
  An \<^verbatim>\<open>xml.etree.ElementTree.Element\<close>: tag, attributes, text, child elements, tail.
  \<^verbatim>\<open>ET.parse\<close> returns a tree in which no element occurs twice, so the document is a
  value and an assignment to a field of an element is a new value of the element.
\<close>

datatype element =
  Element (el_tag: string) (el_attrib: "(string \<times> string) list")
    (el_text: "string option") (el_children: "element list") (el_tail: "string option")

text \<open>\<^verbatim>\<open>elem.findall(tag)\<close> and \<^verbatim>\<open>elem.find(tag)\<close>: direct children only.\<close>

definition et_findall :: "string \<Rightarrow> element \<Rightarrow> element list" where
  "et_findall t e = filter (\<lambda>c. el_tag c = t) (el_children e)"

definition et_find :: "string \<Rightarrow> element \<Rightarrow> element option" where
  "et_find t e = List.find (\<lambda>c. el_tag c = t) (el_children e)"

text \<open>\<^verbatim>\<open>ET.SubElement(parent, tag)\<close>: a new empty element, appended to the children.\<close>

definition SubElement :: "element \<Rightarrow> string \<Rightarrow> element" where
  "SubElement parent t =
     Element (el_tag parent) (el_attrib parent) (el_text parent)
       (el_children parent @ [Element t [] None [] None]) (el_tail parent)"

text \<open>Assigning \<^verbatim>\<open>.text\<close> of the first child with the given tag.\<close>

fun set_first_text :: "string \<Rightarrow> string \<Rightarrow> element list \<Rightarrow> element list" where
  "set_first_text t s [] = []"
| "set_first_text t s (c # cs) =
     (if el_tag c = t
      then Element (el_tag c) (el_attrib c) (Some s) (el_children c) (el_tail c) # cs
      else c # set_first_text t s cs)"

datatype event =
    Print log_line
  | HttpGet string string
  | Sleep real
  | TreeWrite string element


section \<open>What the program is run against\<close>

text \<open>
  The answers of the world outside the program.  \<^verbatim>\<open>requests.get\<close> raises a
  \<^verbatim>\<open>RequestException\<close> or returns a response with its status code and text; the answer
  may differ from one request of a run to the next, so it depends on how many requests
  the run has made before.  The HTML parser and the serialisation \<^verbatim>\<open>str(tag)\<close> belong to
  BeautifulSoup; \<^verbatim>\<open>html.parser\<close> builds a tree for every string, well-formed or not, so
  the parser is a function from strings to trees.  \<^verbatim>\<open>os.path.exists\<close> and \<^verbatim>\<open>ET.parse\<close>
  read the file system; \<^verbatim>\<open>ET.parse\<close> returns the root of the tree or raises.
\<close>

datatype http_result = RequestFailed | Response nat string

record env =
  http_get :: "nat \<Rightarrow> string \<Rightarrow> string \<Rightarrow> http_result"
  html_parser :: "string \<Rightarrow> node"
  tag_str :: "node \<Rightarrow> string"
  path_exists :: "string \<Rightarrow> bool"
  et_parse :: "string \<Rightarrow> py_error + element"


section \<open>\<^verbatim>\<open>fetch_obit_content\<close>\<close>

text \<open>
  The \<^verbatim>\<open>try\<close> block: \<^verbatim>\<open>requests.get\<close> followed by \<^verbatim>\<open>raise_for_status\<close>, which raises for
  a status code from 400 to 599.  \<^const>\<open>None\<close> is the \<^verbatim>\<open>except\<close> branch.
\<close>

definition try_get :: "env \<Rightarrow> nat \<Rightarrow> string \<Rightarrow> string \<Rightarrow> (nat \<times> string) option" where
  "try_get env t url user_agent =
     (case http_get env t url user_agent of
        RequestFailed \<Rightarrow> None
      | Response status_code page_text \<Rightarrow>
          if 400 \<le> status_code \<and> status_code < 600 then None else Some (status_code, page_text))"

text \<open>The body of the loop over \<^verbatim>\<open>content_divs\<close>: the blocks one marker element appends.\<close>

definition div_blocks :: "(node \<Rightarrow> string) \<Rightarrow> node \<Rightarrow> string \<Rightarrow> py_error + string list" where
  \<open>div_blocks to_str div_el comp_type =
     (if comp_type = ''subtitle'' then
        (case find_tag ''h3'' [] div_el of
           None \<Rightarrow> Inr []
         | Some h3 \<Rightarrow> Inr [''<h3>'' @ get_text_strip h3 @ ''</h3>''])
      else if comp_type = ''image'' then
        (case find_tag ''img'' [] div_el of
           None \<Rightarrow> Inr []
         | Some img_tag \<Rightarrow>
             (case tag_get img_tag ''src'' of
                None \<Rightarrow> Inr []
              | Some v \<Rightarrow>
                  if v = [] then Inr []
                  else (case tag_getitem img_tag ''src'' of
                          Inl e \<Rightarrow> Inl e
                        | Inr image_src \<Rightarrow>
                            Inr [''<img src="'' @ image_src @ ''" alt="obit image" />''])))
      else if comp_type = ''text'' then
        (case find_tag ''div'' [AttrEq ''data-blog-inner'' ''text''] div_el of
           None \<Rightarrow> Inr []
         | Some text_div \<Rightarrow> Inr [to_str text_div])
      else Inr [])\<close>

text \<open>
  The loop over \<^verbatim>\<open>content_divs\<close>: the prints it makes and the list \<^verbatim>\<open>combined_html\<close> it
  builds, or the exception that leaves it.
\<close>

fun combined_html :: "(node \<Rightarrow> string) \<Rightarrow> node list \<Rightarrow> event list \<times> (py_error + string list)" where
  "combined_html to_str [] = ([], Inr [])"
| "combined_html to_str (div_el # divs) =
     (let comp_type = tag_get_default div_el ''data-blog-component'' ''unknown'' in
      case div_blocks to_str div_el comp_type of
        Inl e \<Rightarrow> ([Print (DebugHandling comp_type)], Inl e)
      | Inr bs \<Rightarrow>
          (case combined_html to_str divs of
             (evs, Inl e) \<Rightarrow> (Print (DebugHandling comp_type) # evs, Inl e)
           | (evs, Inr rest) \<Rightarrow> (Print (DebugHandling comp_type) # evs, Inr (bs @ rest))))"

text \<open>
  \<^verbatim>\<open>fetch_obit_content(url, user_agent)\<close>, called when the run has made \<open>t\<close> requests.
  The result is the effects in order and the value returned: \<^term>\<open>Inr None\<close> for Python's
  \<^verbatim>\<open>None\<close> (the challenge page), \<^term>\<open>Inr (Some s)\<close> for a string, \<^term>\<open>Inl e\<close> for an
  exception that leaves the function.
\<close>

definition fetch_obit_content ::
  "env \<Rightarrow> nat \<Rightarrow> string \<Rightarrow> string \<Rightarrow> event list \<times> (py_error + string option)" where
  "fetch_obit_content env t url user_agent =
     (case try_get env t url user_agent of
        None \<Rightarrow> ([HttpGet url user_agent, Print (ErrorFetching url)], Inr (Some []))
      | Some (status_code, page_text) \<Rightarrow>
          (let sample_html = lower (take 500 page_text);
               seen = [HttpGet url user_agent, Print (DebugFetched url status_code),
                       Print (DebugFirst500 (take 500 page_text))]
           in if str_contains sample_html ''are you human'' then
                (seen @ [Print ErrorCaptcha], Inr None)
              else
                (let soup = html_parser env page_text;
                     content_divs = find_all ''div'' [HasAttr ''data-blog-component''] soup
                 in case combined_html (tag_str env) content_divs of
                      (evs, Inl e) \<Rightarrow>
                        (seen @ Print (DebugFound (length content_divs)) # evs, Inl e)
                    | (evs, Inr blocks) \<Rightarrow>
                        (seen @ Print (DebugFound (length content_divs)) # evs,
                         Inr (Some (join newline blocks))))))"


section \<open>\<^verbatim>\<open>scrape_rss_feed\<close>\<close>

text \<open>
  \<^verbatim>\<open>title_elem.text.strip() if title_elem is not None else "No Title"\<close>: the text of an
  element without text is \<^verbatim>\<open>None\<close>, and \<^verbatim>\<open>None.strip()\<close> raises.
\<close>

definition title_text :: "element \<Rightarrow> py_error + string" where
  "title_text item =
     (case et_find ''title'' item of
        None \<Rightarrow> Inr ''No Title''
      | Some title_elem \<Rightarrow>
          (case el_text title_elem of
             None \<Rightarrow> Inl AttributeError
           | Some s \<Rightarrow> Inr (strip s)))"

text \<open>The string assigned to the description: \<^verbatim>\<open>f"<![CDATA[\n{obit_html}\n]]>"\<close>.\<close>

definition cdata :: "string \<Rightarrow> string" where
  "cdata obit_html = ''<![CDATA['' @ newline @ obit_html @ newline @ '']]>''"

text \<open>
  Lines 116 to 120: find the description of the item, create it when there is none,
  assign its text.
\<close>

definition set_description :: "element \<Rightarrow> string \<Rightarrow> element" where
  "set_description item s =
     (let item1 = (case et_find ''description'' item of
                     None \<Rightarrow> SubElement item ''description''
                   | Some desc_elem \<Rightarrow> item)
      in Element (el_tag item1) (el_attrib item1) (el_text item1)
           (set_first_text ''description'' s (el_children item1)) (el_tail item1))"

text \<open>
  How one pass through the body of the loop over the items ends: at its last statement
  with the item updated, at \<^verbatim>\<open>continue\<close>, at \<^verbatim>\<open>break\<close>, or with an exception.
\<close>

datatype step = Next element | Skipped | Stop | Raised py_error

text \<open>
  The body of the loop for item \<open>i\<close> of \<open>n\<close>, when the run has made \<open>t\<close> requests.
  \<^verbatim>\<open>time.sleep\<close> raises \<^verbatim>\<open>ValueError\<close> for a negative delay.
\<close>

definition loop_body ::
  "env \<Rightarrow> real \<Rightarrow> string \<Rightarrow> nat \<Rightarrow> nat \<Rightarrow> nat \<Rightarrow> element \<Rightarrow> event list \<times> step" where
  "loop_body env delay user_agent t i n item =
     (case et_find ''link'' item of
        None \<Rightarrow> ([Print (WarnNoLink i n)], Skipped)
      | Some link_elem \<Rightarrow>
          (case el_text link_elem of
             None \<Rightarrow> ([], Raised AttributeError)
           | Some link_text \<Rightarrow>
               (let url = strip link_text in
                case title_text item of
                  Inl e \<Rightarrow> ([], Raised e)
                | Inr title \<Rightarrow>
                    (case fetch_obit_content env t url user_agent of
                       (evs, Inl e) \<Rightarrow> (Print (InfoProcessing i n title url) # evs, Raised e)
                     | (evs, Inr None) \<Rightarrow>
                         (Print (InfoProcessing i n title url) # evs
                            @ [Print (InfoStopping i title)], Stop)
                     | (evs, Inr (Some obit_html)) \<Rightarrow>
                         if delay < 0 then
                           (Print (InfoProcessing i n title url) # evs
                              @ [Print (InfoWaiting delay)], Raised ValueError)
                         else
                           (Print (InfoProcessing i n title url) # evs
                              @ [Print (InfoWaiting delay), Sleep delay],
                            Next (set_description item (cdata obit_html)))))))"

text \<open>How the \<^verbatim>\<open>for\<close> loop is left: the items are used up, or by \<^verbatim>\<open>break\<close>.\<close>

datatype loop_exit = Exhausted | Broke

text \<open>
  \<^verbatim>\<open>for i, item in enumerate(items, start=1)\<close>: the effects, and the items as the loop
  leaves them, or the exception that ends the run.
\<close>

fun item_loop ::
  "env \<Rightarrow> real \<Rightarrow> string \<Rightarrow> nat \<Rightarrow> nat \<Rightarrow> nat \<Rightarrow> element list
     \<Rightarrow> event list \<times> (py_error + element list \<times> loop_exit)" where
  "item_loop env delay user_agent t i n [] = ([], Inr ([], Exhausted))"
| "item_loop env delay user_agent t i n (item # rest) =
     (case loop_body env delay user_agent t i n item of
        (evs, Raised e) \<Rightarrow> (evs, Inl e)
      | (evs, Stop) \<Rightarrow> (evs, Inr (item # rest, Broke))
      | (evs, Skipped) \<Rightarrow>
          (case item_loop env delay user_agent t (Suc i) n rest of
             (evs', Inl e) \<Rightarrow> (evs @ evs', Inl e)
           | (evs', Inr (items', ex)) \<Rightarrow> (evs @ evs', Inr (item # items', ex)))
      | (evs, Next item') \<Rightarrow>
          (case item_loop env delay user_agent (Suc t) (Suc i) n rest of
             (evs', Inl e) \<Rightarrow> (evs @ evs', Inl e)
           | (evs', Inr (items', ex)) \<Rightarrow> (evs @ evs', Inr (item' # items', ex))))"

text \<open>
  The items are the \<^verbatim>\<open>item\<close> children of the channel and the channel is the first
  \<^verbatim>\<open>channel\<close> child of the root: the document after the loop has the items the loop
  left in their places.
\<close>

fun put_items :: "element list \<Rightarrow> element list \<Rightarrow> element list" where
  "put_items [] items' = []"
| "put_items (c # cs) items' =
     (if el_tag c = ''item'' then
        (case items' of
           [] \<Rightarrow> c # put_items cs []
         | x # xs \<Rightarrow> x # put_items cs xs)
      else c # put_items cs items')"

fun put_first :: "string \<Rightarrow> element \<Rightarrow> element list \<Rightarrow> element list" where
  "put_first t e [] = []"
| "put_first t e (c # cs) = (if el_tag c = t then e # cs else c # put_first t e cs)"

definition with_items :: "element \<Rightarrow> element \<Rightarrow> element list \<Rightarrow> element" where
  "with_items root_el channel items' =
     Element (el_tag root_el) (el_attrib root_el) (el_text root_el)
       (put_first ''channel''
          (Element (el_tag channel) (el_attrib channel) (el_text channel)
             (put_items (el_children channel) items') (el_tail channel))
          (el_children root_el))
       (el_tail root_el)"

text \<open>
  \<^verbatim>\<open>scrape_rss_feed(input_file, output_file, delay, user_agent)\<close>: the effects in order,
  and \<^term>\<open>Inr ()\<close> when the function returns, \<^term>\<open>Inl e\<close> when an exception leaves it.
  \<^term>\<open>TreeWrite output_file doc\<close> is the call of \<^verbatim>\<open>tree.write\<close> on the document.
\<close>

definition scrape_rss_feed ::
  "env \<Rightarrow> string \<Rightarrow> string \<Rightarrow> real \<Rightarrow> string \<Rightarrow> event list \<times> (py_error + unit)" where
  "scrape_rss_feed env input_file output_file delay user_agent =
     (if \<not> path_exists env input_file then
        ([Print (InfoParsing input_file), Print (ErrorNotExist input_file)], Inr ())
      else
        (case et_parse env input_file of
           Inl e \<Rightarrow>
             if e = ParseError then ([Print (InfoParsing input_file), Print ErrorParse], Inr ())
             else ([Print (InfoParsing input_file)], Inl e)
         | Inr root_el \<Rightarrow>
             (case et_find ''channel'' root_el of
                None \<Rightarrow>
                  ([Print (InfoParsing input_file), Print (ErrorNoChannel input_file)], Inr ())
              | Some channel \<Rightarrow>
                  (let items = et_findall ''item'' channel;
                       started = [Print (InfoParsing input_file),
                                  Print (InfoFound (length items) input_file)]
                   in case item_loop env delay user_agent 0 1 (length items) items of
                        (evs, Inl e) \<Rightarrow> (started @ evs, Inl e)
                      | (evs, Inr (items', ex)) \<Rightarrow>
                          (started @ evs
                             @ [TreeWrite output_file (with_items root_el channel items'),
                                Print (InfoDone output_file)],
                           Inr ())))))"

section \<open>Observing a run\<close>

text \<open>The sleeps and requests among the effects of a run.\<close>

fun is_sleep :: "event \<Rightarrow> bool" where
  "is_sleep (Sleep d) = True"
| "is_sleep (Print l) = False"
| "is_sleep (HttpGet u a) = False"
| "is_sleep (TreeWrite p d) = False"

fun is_write :: "event \<Rightarrow> bool" where
  "is_write (TreeWrite p d) = True"
| "is_write (Print l) = False"
| "is_write (HttpGet u a) = False"
| "is_write (Sleep d) = False"

fun is_request :: "event \<Rightarrow> bool" where
  "is_request (HttpGet u a) = True"
| "is_request (Print l) = False"
| "is_request (Sleep d) = False"
| "is_request (TreeWrite p d) = False"

definition requests :: "event list \<Rightarrow> nat" where
  "requests evs = length (filter is_request evs)"




text \<open>
  What \<^verbatim>\<open>tree.write\<close> makes of the text of an element: ElementTree writes text through
  \<^verbatim>\<open>_escape_cdata\<close>, which replaces \<^verbatim>\<open>&\<close>, \<^verbatim>\<open><\<close> and \<^verbatim>\<open>>\<close> by their entities.
\<close>

fun escape_cdata :: "string \<Rightarrow> string" where
  "escape_cdata [] = []"
| "escape_cdata (c # cs) =
     (if c = CHR ''&'' then ''&amp;''
      else if c = CHR ''<'' then ''&lt;''
      else if c = CHR ''>'' then ''&gt;''
      else [c]) @ escape_cdata cs"






section \<open>Example pages and feeds\<close>

text \<open>
  The page of the concrete scenario with the tree \<^verbatim>\<open>html.parser\<close> builds for it, a
  challenge page that also holds a marker element, a page whose only marker has an
  unrecognised value, some items, and a world that serves them.
\<close>

definition jane_markup :: string where
  \<open>jane_markup = ''<div data-blog-component="subtitle"><h3>Jane Doe</h3></div><div data-blog-component="image"><img src="http://x/a.jpg"></div>''\<close>

definition jane_soup :: node where
  "jane_soup =
     Tag ''[document]'' []
       [Tag ''div'' [(''data-blog-component'', ''subtitle'')]
          [Tag ''h3'' [] [NavigableString ''Jane Doe'']],
        Tag ''div'' [(''data-blog-component'', ''image'')]
          [Tag ''img'' [(''src'', ''http://x/a.jpg'')] []]]"

definition challenge_page :: string where
  \<open>challenge_page = ''<html><body><h1>Are You Human?</h1><div data-blog-component="subtitle"><h3>Jane Doe</h3></div></body></html>''\<close>

definition challenge_soup :: node where
  "challenge_soup =
     Tag ''[document]'' []
       [Tag ''html'' []
          [Tag ''body'' []
             [Tag ''h1'' [] [NavigableString ''Are You Human?''],
              Tag ''div'' [(''data-blog-component'', ''subtitle'')]
                [Tag ''h3'' [] [NavigableString ''Jane Doe'']]]]]"

definition other_page :: string where
  \<open>other_page = ''<div data-blog-component="video"><h3>Clip</h3></div><div><h3>Plain</h3></div>''\<close>

definition other_soup :: node where
  "other_soup =
     Tag ''[document]'' []
       [Tag ''div'' [(''data-blog-component'', ''video'')]
          [Tag ''h3'' [] [NavigableString ''Clip'']],
        Tag ''div'' [] [Tag ''h3'' [] [NavigableString ''Plain'']]]"

definition item_jane :: element where
  "item_jane =
     Element ''item'' [] None
       [Element ''title'' [] (Some ''Jane Doe'') [] None,
        Element ''link'' [] (Some '' http://x/jane '') [] None,
        Element ''description'' [] (Some ''old'') [] None] None"

definition item_nolink :: element where
  "item_nolink =
     Element ''item'' [] None
       [Element ''title'' [] (Some ''Notice'') [] None,
        Element ''description'' [] (Some ''old'') [] None] None"

definition item_challenge :: element where
  "item_challenge =
     Element ''item'' [] None
       [Element ''link'' [] (Some ''http://x/challenge'') [] None] None"

definition item_gone :: element where
  "item_gone =
     Element ''item'' [] None
       [Element ''link'' [] (Some ''http://x/gone'') [] None,
        Element ''pubDate'' [] (Some ''today'') [] None] None"

definition item_emptylink :: element where
  "item_emptylink =
     Element ''item'' [] None
       [Element ''link'' [] None [] None] None"

definition channel_of :: "element list \<Rightarrow> element" where
  "channel_of items =
     Element ''channel'' [] None
       (Element ''title'' [] (Some ''Obituaries'') [] None # items) None"

definition feed :: "element list \<Rightarrow> element" where
  "feed items = Element ''rss'' [(''version'', ''2.0'')] None [channel_of items] None"

definition jane_fragment :: "string list" where
  \<open>jane_fragment = [''<h3>Jane Doe</h3>'', ''<img src="http://x/a.jpg" alt="obit image" />'']\<close>

definition world :: env where
  "world =
     \<lparr> http_get = (\<lambda>t url user_agent.
          if url = ''http://x/jane'' then Response 200 jane_markup
          else if url = ''http://x/challenge'' then Response 200 challenge_page
          else if url = ''http://x/other'' then Response 200 other_page
          else if url = ''http://x/gone'' then Response 404 ''Not Found''
          else RequestFailed),
       html_parser = (\<lambda>page_text.
          if page_text = jane_markup then jane_soup
          else if page_text = challenge_page then challenge_soup
          else if page_text = other_page then other_soup
          else Tag ''[document]'' [] []),
       tag_str = (\<lambda>nd. []),
       path_exists = (\<lambda>path. path \<noteq> ''missing.xml''),
       et_parse = (\<lambda>path.
          if path = ''halted.xml'' then Inr (feed [item_jane, item_nolink, item_challenge, item_gone])
          else if path = ''skipped.xml'' then Inr (feed [item_nolink, item_challenge])
          else if path = ''single.xml'' then Inr (feed [item_jane])
          else if path = ''emptylink.xml'' then Inr (feed [item_jane, item_emptylink])
          else if path = ''malformed.xml'' then Inl ParseError
          else if path = ''nochannel.xml'' then Inr (Element ''rss'' [] None [] None)
          else Inl OSError) \<rparr>"

section \<open>Strings, pages and effects\<close>

lemma startswith_iff: "startswith s sub \<longleftrightarrow> (\<exists>q. s = sub @ q)"
  by (induction s sub rule: startswith.induct) auto

lemma str_contains_iff: "str_contains s sub \<longleftrightarrow> (\<exists>p q. s = p @ sub @ q)"
proof (induction s)
  case Nil
  then show ?case by auto
next
  case (Cons x xs)
  show ?case
  proof
    assume "str_contains (x # xs) sub"
    then consider "startswith (x # xs) sub" | "str_contains xs sub" by auto
    then show "\<exists>p q. x # xs = p @ sub @ q"
    proof cases
      case 1
      then obtain q where "x # xs = sub @ q" using startswith_iff by blast
      then have "x # xs = [] @ sub @ q" by simp
      then show ?thesis by blast
    next
      case 2
      then obtain p q where "xs = p @ sub @ q" using Cons.IH by blast
      then have "x # xs = (x # p) @ sub @ q" by simp
      then show ?thesis by blast
    qed
  next
    assume "\<exists>p q. x # xs = p @ sub @ q"
    then obtain p q where pq: "x # xs = p @ sub @ q" by blast
    show "str_contains (x # xs) sub"
    proof (cases p)
      case Nil
      with pq have "startswith (x # xs) sub" using startswith_iff by auto
      then show ?thesis by simp
    next
      case (Cons y ys)
      with pq have "xs = ys @ sub @ q" by simp
      then have "str_contains xs sub" using Cons.IH by blast
      then show ?thesis by simp
    qed
  qed
qed

lemma lower_append: "lower (a @ b) = lower a @ lower b"
  by (simp add: lower_def)

lemma try_get_parser_free:
  "try_get (env\<lparr>html_parser := parser, tag_str := to_str\<rparr>) t url user_agent
     = try_get env t url user_agent"
  by (simp add: try_get_def)




lemma combined_html_prints:
  "combined_html to_str ds = (evs, r) \<Longrightarrow> \<forall>e\<in>set evs. \<exists>l. e = Print l"
proof (induction ds arbitrary: evs r)
  case Nil
  then show ?case by simp
next
  case (Cons d ds)
  obtain evs' r' where rest: "combined_html to_str ds = (evs', r')"
    by (cases "combined_html to_str ds")
  with Cons.IH have "\<forall>e\<in>set evs'. \<exists>l. e = Print l" by blast
  with Cons.prems rest show ?case
    by (auto simp: Let_def split: sum.splits)
qed

lemma prints_no_effects:
  "\<forall>e\<in>set evs. \<exists>l. e = Print l
   \<Longrightarrow> filter is_request evs = [] \<and> filter is_sleep evs = [] \<and> filter is_write evs = []"
  by (induction evs) auto

lemma fetch_obit_content_effects:
  assumes "fetch_obit_content env t url user_agent = (evs, r)"
  shows "filter is_request evs = [HttpGet url user_agent] \<and> filter is_sleep evs = []
         \<and> filter is_write evs = []"
proof (cases "try_get env t url user_agent")
  case None
  with assms show ?thesis by (auto simp: fetch_obit_content_def)
next
  case (Some a)
  obtain status_code page_text where a: "a = (status_code, page_text)" by (cases a)
  obtain evs' r' where c: "combined_html (tag_str env)
       (find_all ''div'' [HasAttr ''data-blog-component''] (html_parser env page_text)) = (evs', r')"
    by (cases "combined_html (tag_str env)
       (find_all ''div'' [HasAttr ''data-blog-component''] (html_parser env page_text))")
  then have "filter is_request evs' = [] \<and> filter is_sleep evs' = [] \<and> filter is_write evs' = []"
    using combined_html_prints prints_no_effects by blast
  with assms Some a c show ?thesis
    by (auto simp: fetch_obit_content_def Let_def split: if_splits sum.splits)
qed

lemma loop_body_effects:
  assumes body: "loop_body env delay user_agent t i n item = (evs, out)"
  shows "filter is_sleep evs = (case out of Next item' \<Rightarrow> [Sleep delay] | _ \<Rightarrow> [])
         \<and> filter is_write evs = []
         \<and> (out = Skipped \<longrightarrow> requests evs = 0)
         \<and> (out = Stop \<longrightarrow> requests evs = 1)
         \<and> (\<forall>item'. out = Next item' \<longrightarrow> requests evs = 1 \<and> last evs = Sleep delay)"
proof (cases "et_find ''link'' item")
  case None
  with body show ?thesis by (auto simp: loop_body_def requests_def)
next
  case link: (Some link_elem)
  show ?thesis
  proof (cases "el_text link_elem")
    case None
    with body link show ?thesis by (auto simp: loop_body_def requests_def)
  next
    case link_text: (Some link_text)
    show ?thesis
    proof (cases "title_text item")
      case (Inl e)
      with body link link_text show ?thesis by (auto simp: loop_body_def requests_def)
    next
      case title: (Inr title)
      obtain fevs r where
        fetch: "fetch_obit_content env t (strip link_text) user_agent = (fevs, r)"
        by (cases "fetch_obit_content env t (strip link_text) user_agent")
      then have eff: "filter is_request fevs = [HttpGet (strip link_text) user_agent]"
        "filter is_sleep fevs = []" "filter is_write fevs = []"
        using fetch_obit_content_effects by blast+
      from body link link_text title fetch eff show ?thesis
        by (auto simp: loop_body_def Let_def requests_def
            split: sum.splits option.splits if_splits)
    qed
  qed
qed
lemma requests_append: "requests (a @ b) = requests a + requests b"
  by (simp add: requests_def)



lemma item_loop_append:
  assumes "item_loop env delay user_agent t i n pre = (evs, Inr (pre', Exhausted))"
  shows "item_loop env delay user_agent t i n (pre @ rest) =
     (case item_loop env delay user_agent (t + requests evs) (i + length pre) n rest of
        (evs', Inl e) \<Rightarrow> (evs @ evs', Inl e)
      | (evs', Inr (items', ex)) \<Rightarrow> (evs @ evs', Inr (pre' @ items', ex)))"
  using assms
proof (induction pre arbitrary: t i evs pre')
  case Nil
  then show ?case by (simp add: requests_def split: prod.splits sum.splits)
next
  case (Cons item pre)
  obtain bevs out where body: "loop_body env delay user_agent t i n item = (bevs, out)"
    by (cases "loop_body env delay user_agent t i n item")
  note eff = loop_body_effects[OF body]
  show ?case
  proof (cases out)
    case (Next item')
    obtain evs1 r1 where r: "item_loop env delay user_agent (Suc t) (Suc i) n pre = (evs1, r1)"
      by (cases "item_loop env delay user_agent (Suc t) (Suc i) n pre")
    with Cons.prems body Next obtain pre1 where
      r1: "r1 = Inr (pre1, Exhausted)" and evs: "evs = bevs @ evs1" and pre': "pre' = item' # pre1"
      by (auto split: sum.splits)
    have req: "requests bevs = 1" using eff Next by simp
    from Cons.IH[of "Suc t" "Suc i" evs1 pre1] r r1
    have "item_loop env delay user_agent (Suc t) (Suc i) n (pre @ rest) =
     (case item_loop env delay user_agent (Suc t + requests evs1) (Suc i + length pre) n rest of
        (evs', Inl e) \<Rightarrow> (evs1 @ evs', Inl e)
      | (evs', Inr (items', ex)) \<Rightarrow> (evs1 @ evs', Inr (pre1 @ items', ex)))"
      by simp
    with body Next evs pre' req show ?thesis
      by (simp add: requests_append split: prod.splits sum.splits)
  next
    case Skipped
    obtain evs1 r1 where r: "item_loop env delay user_agent t (Suc i) n pre = (evs1, r1)"
      by (cases "item_loop env delay user_agent t (Suc i) n pre")
    with Cons.prems body Skipped obtain pre1 where
      r1: "r1 = Inr (pre1, Exhausted)" and evs: "evs = bevs @ evs1" and pre': "pre' = item # pre1"
      by (auto split: sum.splits)
    have req: "requests bevs = 0" using eff Skipped by simp
    from Cons.IH[of t "Suc i" evs1 pre1] r r1
    have "item_loop env delay user_agent t (Suc i) n (pre @ rest) =
     (case item_loop env delay user_agent (t + requests evs1) (Suc i + length pre) n rest of
        (evs', Inl e) \<Rightarrow> (evs1 @ evs', Inl e)
      | (evs', Inr (items', ex)) \<Rightarrow> (evs1 @ evs', Inr (pre1 @ items', ex)))"
      by simp
    with body Skipped evs pre' req show ?thesis
      by (simp add: requests_append split: prod.splits sum.splits)
  next
    case Stop
    with Cons.prems body show ?thesis by simp
  next
    case (Raised e)
    with Cons.prems body show ?thesis by simp
  qed
qed











section \<open>What a run leaves untouched\<close>









section \<open>The claims\<close>




text \<open>
  C2.  When the page was fetched and some stretch \<open>w\<close> of its first 500 characters
  reads "are you human" up to letter case, \<^verbatim>\<open>fetch_obit_content\<close> returns \<^verbatim>\<open>None\<close>,
  the challenge signal.  This holds whatever the parser makes of the page and whatever
  marker elements the page has, and the effects end with the captcha message: the
  function returns before the page is parsed.
\<close>

theorem C2_blocked_before_parsing:
  assumes fetched: "try_get env t url user_agent = Some (status_code, page_text)"
    and prefix: "take 500 page_text = p @ w @ q"
    and phrase: "lower w = ''are you human''"
  shows "fetch_obit_content (env\<lparr>html_parser := parser, tag_str := to_str\<rparr>) t url user_agent =
           ([HttpGet url user_agent, Print (DebugFetched url status_code),
             Print (DebugFirst500 (take 500 page_text)), Print ErrorCaptcha],
            Inr None)"
proof -
  have "lower (take 500 page_text) = lower p @ ''are you human'' @ lower q"
    using prefix phrase by (simp add: lower_append)
  then have "str_contains (lower (take 500 page_text)) ''are you human''"
    unfolding str_contains_iff by blast
  then show ?thesis
    using fetched by (simp add: fetch_obit_content_def try_get_parser_free)
qed


text \<open>
  The theorem at the challenge page, whose parse tree holds a subtitle marker.
\<close>

theorem C2_blocked_before_parsing_witness:
  "find_all ''div'' [HasAttr ''data-blog-component''] (html_parser world challenge_page) \<noteq> []
   \<and> fetch_obit_content world 0 ''http://x/challenge'' ''UA'' =
       ([HttpGet ''http://x/challenge'' ''UA'', Print (DebugFetched ''http://x/challenge'' 200),
         Print (DebugFirst500 challenge_page), Print ErrorCaptcha],
        Inr None)"
proof -
  have fetched: "try_get world 0 ''http://x/challenge'' ''UA'' = Some (200, challenge_page)"
    by code_simp
  have prefix: "take 500 challenge_page
                  = ''<html><body><h1>'' @ ''Are You Human'' @ drop 29 challenge_page"
    by code_simp
  have phrase: "lower ''Are You Human'' = ''are you human''"
    by code_simp
  have same: "world\<lparr>html_parser := html_parser world, tag_str := tag_str world\<rparr> = world"
    by simp
  have short: "take 500 challenge_page = challenge_page"
    by code_simp
  have markers: "find_all ''div'' [HasAttr ''data-blog-component''] (html_parser world challenge_page) \<noteq> []"
    by code_simp
  from C2_blocked_before_parsing[OF fetched prefix phrase,
      where parser = "html_parser world" and to_str = "tag_str world"]
  show ?thesis
    using markers by (simp only: same short simp_thms)
qed

text \<open>
  C3.  For the page of the concrete scenario, fetched with a status that is not an
  error and parsed by \<^verbatim>\<open>html.parser\<close> into the tree \<^term>\<open>jane_soup\<close>, the list
  \<^verbatim>\<open>combined_html\<close> is exactly the heading block followed by the image block, and the
  function returns the two joined by a newline.
\<close>

theorem C3_jane_doe_fragment:
  assumes fetched: "try_get env t url user_agent = Some (status_code, jane_markup)"
    and parsed: "html_parser env jane_markup = jane_soup"
  shows \<open>snd (combined_html (tag_str env)
              (find_all ''div'' [HasAttr ''data-blog-component''] (html_parser env jane_markup)))
           = Inr [''<h3>Jane Doe</h3>'', ''<img src="http://x/a.jpg" alt="obit image" />'']
         \<and> snd (fetch_obit_content env t url user_agent)
           = Inr (Some (''<h3>Jane Doe</h3>'' @ newline
                        @ ''<img src="http://x/a.jpg" alt="obit image" />''))\<close>
proof -
  have divs: "find_all ''div'' [HasAttr ''data-blog-component''] jane_soup =
      [Tag ''div'' [(''data-blog-component'', ''subtitle'')]
         [Tag ''h3'' [] [NavigableString ''Jane Doe'']],
       Tag ''div'' [(''data-blog-component'', ''image'')]
         [Tag ''img'' [(''src'', ''http://x/a.jpg'')] []]]"
    by code_simp
  have heading: "get_text_strip (Tag ''h3'' [] [NavigableString ''Jane Doe'']) = ''Jane Doe''"
    by code_simp
  have blocks: \<open>combined_html (tag_str env)
        (find_all ''div'' [HasAttr ''data-blog-component''] jane_soup) =
      ([Print (DebugHandling ''subtitle''), Print (DebugHandling ''image'')],
       Inr [''<h3>Jane Doe</h3>'', ''<img src="http://x/a.jpg" alt="obit image" />''])\<close>
    unfolding divs
    by (simp add: tag_get_default_def div_blocks_def find_tag_def find_all_def
        tag_getitem_def heading)
  have clear: "\<not> str_contains (lower (take 500 jane_markup)) ''are you human''"
    by code_simp
  show ?thesis
    using fetched parsed blocks clear
    by (simp add: fetch_obit_content_def Let_def)
qed

text \<open>The theorem in the example world, which serves the page with status 200.\<close>

theorem C3_jane_doe_fragment_witness:
  \<open>snd (fetch_obit_content world 0 ''http://x/jane'' ''UA'')
     = Inr (Some (''<h3>Jane Doe</h3>'' @ newline
                  @ ''<img src="http://x/a.jpg" alt="obit image" />''))\<close>
proof -
  have fetched: "try_get world 0 ''http://x/jane'' ''UA'' = Some (200, jane_markup)"
    by code_simp
  have parsed: "html_parser world jane_markup = jane_soup"
    by code_simp
  from C3_jane_doe_fragment[OF fetched parsed] show ?thesis
    by blast
qed

text \<open>
  C4.  The loop assigns to the description, as the text of the element, the blocks
  joined by newlines between the characters of a CDATA opening and closing; the
  description is created when the item has none.  ElementTree has no CDATA sections:
  \<^verbatim>\<open>tree.write\<close> writes the text of an element escaped, so no \<^verbatim>\<open><\<close> of the assigned
  string reaches the file.  The CDATA opening is written as \<^verbatim>\<open>&lt;![CDATA[\<close> and the
  markup of the blocks is escaped with it.  Here the item of the example feed is
  processed and the text of its description is escaped the way the writer does.
\<close>

theorem C4_description_is_escaped_text:
  \<open>CHR ''<'' \<notin> set (escape_cdata (cdata obit_html))
   \<and> snd (loop_body world 3 ''UA'' 0 1 1 item_jane)
       = Next (Element ''item'' [] None
                [Element ''title'' [] (Some ''Jane Doe'') [] None,
                 Element ''link'' [] (Some '' http://x/jane '') [] None,
                 Element ''description'' []
                   (Some (''<![CDATA['' @ newline @ ''<h3>Jane Doe</h3>'' @ newline
                          @ ''<img src="http://x/a.jpg" alt="obit image" />'' @ newline
                          @ '']]>'')) [] None] None)
   \<and> escape_cdata (''<![CDATA['' @ newline @ ''<h3>Jane Doe</h3>'' @ newline
                     @ ''<img src="http://x/a.jpg" alt="obit image" />'' @ newline @ '']]>'')
       = ''&lt;![CDATA['' @ newline @ ''&lt;h3&gt;Jane Doe&lt;/h3&gt;'' @ newline
         @ ''&lt;img src="http://x/a.jpg" alt="obit image" /&gt;'' @ newline @ '']]&gt;''\<close>
proof -
  have no_lt: "CHR ''<'' \<notin> set (escape_cdata s)" for s
    by (induction s) auto
  have a: \<open>snd (loop_body world 3 ''UA'' 0 1 1 item_jane)
       = Next (Element ''item'' [] None
                [Element ''title'' [] (Some ''Jane Doe'') [] None,
                 Element ''link'' [] (Some '' http://x/jane '') [] None,
                 Element ''description'' []
                   (Some (''<![CDATA['' @ newline @ ''<h3>Jane Doe</h3>'' @ newline
                          @ ''<img src="http://x/a.jpg" alt="obit image" />'' @ newline
                          @ '']]>'')) [] None] None)\<close>
    by code_simp
  have b: \<open>escape_cdata (''<![CDATA['' @ newline @ ''<h3>Jane Doe</h3>'' @ newline
                     @ ''<img src="http://x/a.jpg" alt="obit image" />'' @ newline @ '']]>'')
       = ''&lt;![CDATA['' @ newline @ ''&lt;h3&gt;Jane Doe&lt;/h3&gt;'' @ newline
         @ ''&lt;img src="http://x/a.jpg" alt="obit image" /&gt;'' @ newline @ '']]&gt;''\<close>
    by code_simp
  from no_lt a b show ?thesis by blast
qed







text \<open>
  C7.  When the input path does not exist, when \<^verbatim>\<open>ET.parse\<close> raises \<^verbatim>\<open>ParseError\<close>, and
  when the root has no \<^verbatim>\<open>channel\<close> child, the function returns at once: its only
  effects are the opening message and one error message, a different one for each of
  the three causes.  No request is made and \<^verbatim>\<open>tree.write\<close> is not called.
\<close>

theorem C7_preconditions:
  "(\<not> path_exists env input_file \<longrightarrow>
      scrape_rss_feed env input_file output_file delay user_agent =
        ([Print (InfoParsing input_file), Print (ErrorNotExist input_file)], Inr ()))
   \<and> (path_exists env input_file \<and> et_parse env input_file = Inl ParseError \<longrightarrow>
      scrape_rss_feed env input_file output_file delay user_agent =
        ([Print (InfoParsing input_file), Print ErrorParse], Inr ()))
   \<and> (path_exists env input_file \<and> et_parse env input_file = Inr root_el
        \<and> et_find ''channel'' root_el = None \<longrightarrow>
      scrape_rss_feed env input_file output_file delay user_agent =
        ([Print (InfoParsing input_file), Print (ErrorNoChannel input_file)], Inr ()))"
  by (simp add: scrape_rss_feed_def)

text \<open>The theorem at a missing path, a malformed file and a file without channel.\<close>

theorem C7_preconditions_witness:
  "scrape_rss_feed world ''missing.xml'' ''out.xml'' 3 ''UA'' =
     ([Print (InfoParsing ''missing.xml''), Print (ErrorNotExist ''missing.xml'')], Inr ())
   \<and> scrape_rss_feed world ''malformed.xml'' ''out.xml'' 3 ''UA'' =
     ([Print (InfoParsing ''malformed.xml''), Print ErrorParse], Inr ())
   \<and> scrape_rss_feed world ''nochannel.xml'' ''out.xml'' 3 ''UA'' =
     ([Print (InfoParsing ''nochannel.xml''), Print (ErrorNoChannel ''nochannel.xml'')], Inr ())"
proof -
  have missing: "\<not> path_exists world ''missing.xml''"
    by code_simp
  have malformed: "path_exists world ''malformed.xml''
                   \<and> et_parse world ''malformed.xml'' = Inl ParseError"
    by code_simp
  have nochannel: "path_exists world ''nochannel.xml''
                   \<and> et_parse world ''nochannel.xml'' = Inr (Element ''rss'' [] None [] None)
                   \<and> et_find ''channel'' (Element ''rss'' [] None [] None) = None"
    by code_simp
  from C7_preconditions[of world "''missing.xml''" "''out.xml''" 3 "''UA''"] missing
  have a: "scrape_rss_feed world ''missing.xml'' ''out.xml'' 3 ''UA'' =
     ([Print (InfoParsing ''missing.xml''), Print (ErrorNotExist ''missing.xml'')], Inr ())"
    by blast
  from C7_preconditions[of world "''malformed.xml''" "''out.xml''" 3 "''UA''"] malformed
  have b: "scrape_rss_feed world ''malformed.xml'' ''out.xml'' 3 ''UA'' =
     ([Print (InfoParsing ''malformed.xml''), Print ErrorParse], Inr ())"
    by blast
  from C7_preconditions[of world "''nochannel.xml''" "''out.xml''" 3 "''UA''"
      "Element ''rss'' [] None [] None"] nochannel
  have c: "scrape_rss_feed world ''nochannel.xml'' ''out.xml'' 3 ''UA'' =
     ([Print (InfoParsing ''nochannel.xml''), Print (ErrorNoChannel ''nochannel.xml'')], Inr ())"
    by blast
  from a b c show ?thesis by blast
qed





text \<open>
  C10.  For an item whose \<^verbatim>\<open>link\<close> child has no text, the pass through the loop body
  raises \<^verbatim>\<open>AttributeError\<close> before any effect: no warning is printed, no request is
  made.  The exception ends the loop, and a run that reaches such an item ends with it:
  the exception leaves \<^verbatim>\<open>scrape_rss_feed\<close> and \<^verbatim>\<open>tree.write\<close> is not called.
\<close>

theorem C10_empty_link_raises:
  assumes link: "et_find ''link'' item = Some link_elem"
    and no_text: "el_text link_elem = None"
  shows "loop_body env delay user_agent t i n item = ([], Raised AttributeError)
         \<and> item_loop env delay user_agent t i n (item # rest) = ([], Inl AttributeError)
         \<and> (path_exists env input_file \<and> et_parse env input_file = Inr root_el
              \<and> et_find ''channel'' root_el = Some channel
              \<and> et_findall ''item'' channel = pre @ item # post
              \<and> item_loop env delay user_agent 0 1 (length (pre @ item # post)) pre
                  = (evs, Inr (pre', Exhausted))
            \<longrightarrow> scrape_rss_feed env input_file output_file delay user_agent =
                  ([Print (InfoParsing input_file),
                    Print (InfoFound (length (pre @ item # post)) input_file)] @ evs,
                   Inl AttributeError))"
proof -
  have body: "loop_body env delay user_agent t' i' n' item = ([], Raised AttributeError)"
    for t' i' n'
    using link no_text by (simp add: loop_body_def)
  have raised: "item_loop env delay user_agent t' i' n' (item # rest') = ([], Inl AttributeError)"
    for t' i' n' rest'
    using body by simp
  have run: "scrape_rss_feed env input_file output_file delay user_agent =
                  ([Print (InfoParsing input_file),
                    Print (InfoFound (length (pre @ item # post)) input_file)] @ evs,
                   Inl AttributeError)"
    if exists: "path_exists env input_file"
      and parsed: "et_parse env input_file = Inr root_el"
      and channel: "et_find ''channel'' root_el = Some channel"
      and items: "et_findall ''item'' channel = pre @ item # post"
      and before: "item_loop env delay user_agent 0 1 (length (pre @ item # post)) pre
                  = (evs, Inr (pre', Exhausted))"
  proof -
    have "item_loop env delay user_agent 0 1 (length (pre @ item # post)) (pre @ item # post)
            = (evs, Inl AttributeError)"
      using item_loop_append[OF before, of "item # post"] raised by simp
    with exists parsed channel items show ?thesis
      by (simp add: scrape_rss_feed_def Let_def)
  qed
  from body raised run show ?thesis by blast
qed

text \<open>
  The theorem at a feed whose second item has an empty link: the first item is
  processed, then the run ends with the exception.
\<close>

theorem C10_empty_link_raises_witness:
  "loop_body world 3 ''UA'' 1 2 2 item_emptylink = ([], Raised AttributeError)
   \<and> snd (scrape_rss_feed world ''emptylink.xml'' ''out.xml'' 3 ''UA'') = Inl AttributeError
   \<and> filter is_write (fst (scrape_rss_feed world ''emptylink.xml'' ''out.xml'' 3 ''UA'')) = []"
proof -
  let ?items = "[item_jane, item_emptylink]"
  let ?pre' = "[set_description item_jane (cdata (join newline jane_fragment))]"
  let ?evs = "fst (item_loop world 3 ''UA'' 0 1 (length ([item_jane] @ item_emptylink # [])) [item_jane])"
  have link: "et_find ''link'' item_emptylink = Some (Element ''link'' [] None [] None)"
    by code_simp
  have no_text: "el_text (Element ''link'' [] None [] None) = None"
    by simp
  have feed: "path_exists world ''emptylink.xml''
              \<and> et_parse world ''emptylink.xml'' = Inr (feed ?items)
              \<and> et_find ''channel'' (feed ?items) = Some (channel_of ?items)
              \<and> et_findall ''item'' (channel_of ?items) = [item_jane] @ item_emptylink # []
              \<and> item_loop world 3 ''UA'' 0 1 (length ([item_jane] @ item_emptylink # [])) [item_jane]
                  = (?evs, Inr (?pre', Exhausted))"
    by code_simp
  have quiet: "filter is_write ?evs = []"
    by code_simp
  from C10_empty_link_raises[OF link no_text, of world 3 "''UA''" 1 2 2 "[]"
      "''emptylink.xml''" "feed ?items" "channel_of ?items" "[item_jane]" "[]" ?evs ?pre' "''out.xml''"]
    feed
  have "loop_body world 3 ''UA'' 1 2 2 item_emptylink = ([], Raised AttributeError)
        \<and> scrape_rss_feed world ''emptylink.xml'' ''out.xml'' 3 ''UA'' =
            ([Print (InfoParsing ''emptylink.xml''),
              Print (InfoFound (length ([item_jane] @ item_emptylink # [])) ''emptylink.xml'')] @ ?evs,
             Inl AttributeError)"
    by blast
  then show ?thesis
    using quiet by simp
qed

end
